theory Spec2Isabelle
  imports Main "HOL-Library.Word" "HOL-Library.Signed_Division"
begin

unbundle bit_operations_syntax

section \<open>Values of the packages that client/option.go imports\<close>

text \<open>
  client/option.go stores collaborators of other packages without looking inside them.
  Such a Go value is a \<open>handle\<close>; an interface or pointer value that may be nil is a
  \<open>handle option\<close>, with \<open>None\<close> for nil.
\<close>

type_synonym handle = nat

text \<open>\<open>transport.Protocol\<close> is an integer type and \<open>time.Duration\<close> is an int64 of nanoseconds.\<close>

type_synonym Protocol = int
type_synonym Duration = "64 word"

text \<open>\<open>Duration.Milliseconds\<close>: integer division of Go, truncating towards zero.\<close>

definition Milliseconds :: "Duration \<Rightarrow> int" where
  "Milliseconds d = sint d sdiv 1000000"

text \<open>
  The declarations of other packages that the file reads and whose text is not part of
  the source tree at hand are parameters of the model:
  \<open>transport.Protocol.String\<close>, \<open>transport.Unknown\<close>, \<open>transport.GRPC\<close>,
  \<open>transport.TTHeader\<close>, \<open>net.ResolveTCPAddr\<close> and \<open>net.ResolveUnixAddr\<close> (true when the
  returned error is nil), \<open>discovery.DefaultWeight\<close>, \<open>rpcinfo.BitRPCTimeout\<close>,
  \<open>rpcinfo.BitConnectTimeout\<close> and \<open>utils.GetFuncName\<close>.
\<close>

record deps =
  Protocol_String :: "Protocol \<Rightarrow> string"
  Unknown :: string
  GRPC :: Protocol
  TTHeader :: Protocol
  ResolveTCPAddr :: "string \<Rightarrow> string \<Rightarrow> bool"
  ResolveUnixAddr :: "string \<Rightarrow> string \<Rightarrow> bool"
  DefaultWeight :: int
  BitRPCTimeout :: int
  BitConnectTimeout :: int
  GetFuncName :: "handle \<Rightarrow> string"

text \<open>
  \<open>discovery.NewInstance(network, address, weight, tags)\<close> is kept as the constructor
  call itself; \<open>discovery.Result\<close> and \<open>discovery.SynthesizedResolver\<close> are the struct
  literals that \<open>WithHostPorts\<close> writes. The closure \<open>NameFunc\<close> reads \<open>o.Targets\<close> of the
  options it was installed in when it is called, so it is kept as a tag.
\<close>

datatype Instance = NewInstance string string int "(string \<rightharpoonup> string) option"

record Result =
  Cacheable :: bool
  CacheKey :: string
  Instances :: "Instance list"

datatype NameClosure = Return_o_Targets

datatype Resolver =
    SynthesizedResolver (ResolveFunc: "handle \<Rightarrow> string \<Rightarrow> Result \<times> handle option")
                        (NameFunc: NameClosure)
  | ResolverValue handle

text \<open>
  Modelled from the spec: the constructors of pkg/remote/trans/nphttp2 and
  pkg/remote/trans/netpollmux and \<open>connpool.CheckPoolConfig\<close> are not under src/. Each is
  kept as the constructor call, a non-nil collaborator (the spec: "installs non-nil
  connection-pool and handler-factory collaborator fields").
\<close>

datatype ConnPool =
    nphttp2_NewConnPool
  | netpollmux_NewMuxConnPool int
  | ConnPoolValue handle

datatype CliHandlerFactory_t =
    nphttp2_NewCliTransHandlerFactory
  | netpollmux_NewCliTransHandlerFactory
  | HandlerFactoryValue handle

datatype IdleConfigPtr = CheckPoolConfig handle

text \<open>
  \<open>endpoint.MiddlewareBuilder\<close>: a builder given by the caller, or the closure
  \<open>func(ctx) endpoint.Middleware { return mw }\<close> that \<open>WithMiddleware\<close> and
  \<open>WithInstanceMW\<close> wrap around a middleware.
\<close>

datatype MiddlewareBuilder = BuilderValue handle | Return_mw handle

section \<open>The trace sink\<close>

text \<open>
  The arguments of \<open>fmt.Sprintf\<close> and \<open>fmt.Errorf\<close> are kept with their format string:
  the text they print is the business of package fmt.
\<close>

datatype arg =
    AString string
  | AStrings "string list"
  | AInt int
  | AProtocol Protocol
  | AValue handle
  | AIface "handle option"
  | AIfaces "handle option list"
  | AResolver "Resolver option"
  | AHandlerFactory "CliHandlerFactory_t option"

datatype msg = Lit string | Sprintf string "arg list" | Errorf string "arg list"

text \<open>
  Modelled from the spec: \<open>utils.Slice\<close> is not under src/. The spec's trace log is an
  ordered, append-only sequence whose entries are a leaf description or a nested
  sub-sequence tagged with the bundle's identity; \<open>Push\<close> appends one entry at the end.
  \<open>Nested\<close> is the struct \<open>{Suite string; Options utils.Slice}\<close> of \<open>WithSuite\<close>.
\<close>

datatype entry = Leaf msg | Nested msg "entry list"

type_synonym Slice = "entry list"

definition Push :: "Slice \<Rightarrow> entry \<Rightarrow> Slice" where
  "Push di x = di @ [x]"

section \<open>client.Options\<close>

text \<open>
  Modelled from the spec: the struct \<open>client.Options\<close> (internal/client) and the structs
  it holds are not under src/. The fields are the ones client/option.go touches, with
  their sub-structures allocated and their maps non-nil, as a build pass receives them.
  The rpc config keeps the transport protocol and the two timeouts, and its setters
  store their argument (the spec: "Setting an RPC timeout sets both the timeout value
  and the corresponding lock-set bit"). The tracer controller owns an ordered list of
  tracers and \<open>Append\<close> adds one at its end. \<open>retry.Policy\<close> is the oneof of the spec;
  its zero value has no policy, is disabled, and carries the first policy type.
\<close>

record RemoteOpt_t =
  ConnPool :: "ConnPool option"
  CliHandlerFactory :: "CliHandlerFactory_t option"
  Codec :: "handle option"
  PayloadCodec :: "handle option"
  EnableConnPoolReporter :: bool

record RPCConfig =
  TransportProtocol :: Protocol
  RPCTimeout :: Duration
  ConnectTimeout :: Duration

definition SetTransportProtocol :: "Protocol \<Rightarrow> RPCConfig \<Rightarrow> RPCConfig" where
  "SetTransportProtocol tp c = c\<lparr>TransportProtocol := tp\<rparr>"

definition SetRPCTimeout :: "Duration \<Rightarrow> RPCConfig \<Rightarrow> RPCConfig" where
  "SetRPCTimeout d c = c\<lparr>RPCTimeout := d\<rparr>"

definition SetConnectTimeout :: "Duration \<Rightarrow> RPCConfig \<Rightarrow> RPCConfig" where
  "SetConnectTimeout d c = c\<lparr>ConnectTimeout := d\<rparr>"

record EndpointBasicInfo =
  ServiceName :: string
  Tags :: "string \<rightharpoonup> string"

record ConfigLocks =
  Bits :: int
  LockTags :: "string set"

type_synonym Controller = "handle option list"

definition Append :: "Controller \<Rightarrow> handle option \<Rightarrow> Controller" where
  "Append ctl c = ctl @ [c]"

datatype PolicyType = FailureType | BackupType

record Policy =
  Enable :: bool
  Type :: PolicyType
  FailurePolicy :: "handle option"
  BackupPolicy :: "handle option"

definition Policy_zero :: Policy where
  "Policy_zero = \<lparr>Enable = False, Type = FailureType, FailurePolicy = None, BackupPolicy = None\<rparr>"

record Options =
  RemoteOpt :: RemoteOpt_t
  Configs :: RPCConfig
  MWBs :: "MiddlewareBuilder list"
  IMWBs :: "MiddlewareBuilder list"
  Once :: "string set"
  Svr :: EndpointBasicInfo
  Targets :: string
  Resolver :: "Resolver option"
  HTTPResolver :: "handle option"
  PoolCfg :: "IdleConfigPtr option"
  Logger :: "handle option"
  Balancer :: "handle option"
  BalancerCacheOpt :: "handle option"
  Locks :: ConfigLocks
  TracerCtl :: "Controller option"
  StatsLevel :: handle
  RetryPolicy :: "Policy option"

text \<open>
  Modelled from the spec: \<open>OnceOrPanic\<close> is not under src/. The spec: the service name
  is "settable at most once (invariant: second attempt is a fatal error)". The once
  record keeps the names of the once-only fragments already applied; a second
  application of the same one gives \<open>None\<close>, the panic.
\<close>

definition OnceOrPanic :: "string \<Rightarrow> string set \<Rightarrow> string set option" where
  "OnceOrPanic name once = (if name \<in> once then None else Some (insert name once))"

section \<open>Panics\<close>

text \<open>
  A panic leaves the options and the sink as they are at that moment: both are reached
  through pointers. The result of applying an option is the panic with that state, or
  the state the call returns with.
\<close>

datatype panic = Panic msg | OncePanic string

type_synonym outcome = "(panic \<times> Options \<times> Slice) + (Options \<times> Slice)"

section \<open>The options of client/option.go\<close>

text \<open>\<open>strings.Join\<close>.\<close>

fun Join :: "string list \<Rightarrow> string \<Rightarrow> string" where
  "Join [] sep = []"
| "Join [x] sep = x"
| "Join (x # y # ys) sep = x @ sep @ Join (y # ys) sep"

text \<open>
  An \<open>Option\<close> wraps one function \<open>F\<close>. The options here are the ones the constructors of
  client/option.go build, each with the arguments its closure captures; a \<open>Suite\<close> is a
  value with its \<open>Options()\<close>.
\<close>

datatype ClientOption =
    WithTransportProtocol Protocol
  | WithSuite Suite
  | WithMiddleware handle
  | WithMiddlewareBuilder handle
  | WithInstanceMW handle
  | WithDestService string
  | WithHostPorts "string list"
  | WithResolver "Resolver option"
  | WithHTTPResolver "handle option"
  | WithLongConnection handle
  | WithMuxConnection int
  | WithLogger "handle option"
  | WithLoadBalancer "handle option" "handle option list"
  | WithRPCTimeout Duration
  | WithConnectTimeout Duration
  | WithTag string string
  | WithTracer "handle option"
  | WithStatsLevel handle
  | WithCodec "handle option"
  | WithPayloadCodec "handle option"
  | WithConnReporterEnabled
  | WithFailureRetry "handle option"
  | WithBackupRequest "handle option"
and Suite = Suite_of handle "ClientOption list"

text \<open>The loop of \<open>WithHostPorts\<close> over the addresses, \<open>ins\<close> being the slice built so far.\<close>

fun hostports_loop :: "deps \<Rightarrow> string list \<Rightarrow> Instance list \<Rightarrow> panic + Instance list" where
  "hostports_loop e [] ins = Inr ins"
| "hostports_loop e (hp # hps) ins =
     (if ResolveTCPAddr e ''tcp'' hp
      then hostports_loop e hps (ins @ [NewInstance ''tcp'' hp (DefaultWeight e) None])
      else if ResolveUnixAddr e ''unix'' hp
      then hostports_loop e hps (ins @ [NewInstance ''unix'' hp (DefaultWeight e) None])
      else Inl (Panic (Errorf (''WithHostPorts: invalid '' @ [CHR 0x27] @ ''%s'' @ [CHR 0x27])
                         [AString hp])))"

text \<open>
  Modelled from the spec: \<open>WithTransHandlerFactory\<close> (client/option_advanced.go) is not
  under src/. As a fragment of the spec it "mutates exactly the fields it owns and
  appends exactly one descriptive trace entry summarizing the fragment's name and
  effective arguments"; its field is the handler factory.
\<close>

definition WithTransHandlerFactory_F ::
  "CliHandlerFactory_t option \<Rightarrow> Options \<Rightarrow> Slice \<Rightarrow> outcome" where
  "WithTransHandlerFactory_F f o' di =
     Inr (o'\<lparr>RemoteOpt := (RemoteOpt o')\<lparr>CliHandlerFactory := f\<rparr>\<rparr>,
          Push di (Leaf (Sprintf ''WithTransHandlerFactory(%T)'' [AHandlerFactory f])))"

text \<open>
  \<open>F e op o di\<close> is \<open>op.F(o, di)\<close>, and \<open>range_F e ops o di\<close> is the loop
  \<open>for _, op := range ops { op.F(o, di) }\<close> of \<open>WithSuite\<close>. A panic inside a suite
  leaves the caller's sink as it was: the nested sink is a local variable of the closure.
\<close>

fun F :: "deps \<Rightarrow> ClientOption \<Rightarrow> Options \<Rightarrow> Slice \<Rightarrow> outcome"
and range_F :: "deps \<Rightarrow> ClientOption list \<Rightarrow> Options \<Rightarrow> Slice \<Rightarrow> outcome" where
  "F e (WithTransportProtocol tp) o' di =
     (let tpName = Protocol_String e tp in
      if tpName = Unknown e
      then Inl (Panic (Errorf (''WithTransportProtocol: invalid '' @ [CHR 0x27] @ ''%v'' @ [CHR 0x27])
                         [AProtocol tp]), o', di)
      else
        let o1 = (if tp = GRPC e
                  then o'\<lparr>RemoteOpt := (RemoteOpt o')\<lparr>ConnPool := Some nphttp2_NewConnPool,
                         CliHandlerFactory := Some nphttp2_NewCliTransHandlerFactory\<rparr>\<rparr>
                  else o');
            di1 = Push di (Leaf (Sprintf ''WithTransportProtocol(%s)'' [AString tpName]))
        in Inr (o1\<lparr>Configs := SetTransportProtocol tp (Configs o1)\<rparr>, di1))"
| "F e (WithSuite (Suite_of suite ops)) o' di =
     (let nested_Suite = Sprintf ''%T(%+v)'' [AValue suite, AValue suite] in
      case range_F e ops o' [] of
        Inl (p, o1, nested_Options) \<Rightarrow> Inl (p, o1, di)
      | Inr (o1, nested_Options) \<Rightarrow> Inr (o1, Push di (Nested nested_Suite nested_Options)))"
| "F e (WithMiddleware mw) o' di =
     (let di1 = Push di (Leaf (Sprintf ''WithMiddleware(%+v)'' [AString (GetFuncName e mw)]))
      in Inr (o'\<lparr>MWBs := MWBs o' @ [Return_mw mw]\<rparr>, di1))"
| "F e (WithMiddlewareBuilder mwb) o' di =
     (let di1 = Push di (Leaf (Sprintf ''WithMiddlewareBuilder(%+v)'' [AString (GetFuncName e mwb)]))
      in Inr (o'\<lparr>MWBs := MWBs o' @ [BuilderValue mwb]\<rparr>, di1))"
| "F e (WithInstanceMW mw) o' di =
     (let di1 = Push di (Leaf (Sprintf ''WithInstanceMW(%+v)'' [AString (GetFuncName e mw)]))
      in Inr (o'\<lparr>IMWBs := IMWBs o' @ [Return_mw mw]\<rparr>, di1))"
| "F e (WithDestService svr) o' di =
     (case OnceOrPanic ''WithDestService'' (Once o') of
        None \<Rightarrow> Inl (OncePanic ''WithDestService'', o', di)
      | Some once \<Rightarrow>
          let o1 = o'\<lparr>Once := once\<rparr>;
              di1 = Push di (Leaf (Sprintf ''WithDestService(%s)'' [AString svr]))
          in Inr (o1\<lparr>Svr := (Svr o1)\<lparr>ServiceName := svr\<rparr>\<rparr>, di1))"
| "F e (WithHostPorts hostports) o' di =
     (let di1 = Push di (Leaf (Sprintf ''WithHostPorts(%v)'' [AStrings hostports])) in
      case hostports_loop e hostports [] of
        Inl p \<Rightarrow> Inl (p, o', di1)
      | Inr ins \<Rightarrow>
          if length ins = 0
          then Inl (Panic (Lit ''WithHostPorts() requires at least one argument''), o', di1)
          else Inr (o'\<lparr>Targets := Join hostports '','',
                       Resolver := Some (SynthesizedResolver
                         (\<lambda>ctx key. (\<lparr>Cacheable = True, CacheKey = ''fixed'', Instances = ins\<rparr>, None))
                         Return_o_Targets)\<rparr>, di1))"
| "F e (WithResolver r) o' di =
     (let di1 = Push di (Leaf (Sprintf ''WithResolver(%T)'' [AResolver r]))
      in Inr (o'\<lparr>Resolver := r\<rparr>, di1))"
| "F e (WithHTTPResolver r) o' di =
     (let di1 = Push di (Leaf (Sprintf ''WithHTTPResolver(%T)'' [AIface r]))
      in Inr (o'\<lparr>HTTPResolver := r\<rparr>, di1))"
| "F e (WithLongConnection cfg) o' di =
     (let di1 = Push di (Leaf (Sprintf ''WithLongConnection(%+v)'' [AValue cfg]))
      in if PoolCfg o' = None
         then Inr (o'\<lparr>PoolCfg := Some (CheckPoolConfig cfg)\<rparr>, di1)
         else Inr (o', di1))"
| "F e (WithMuxConnection connNum) o' di =
     (let di1 = Push di (Leaf (Lit ''WithMuxConnection''));
          o1 = o'\<lparr>RemoteOpt := (RemoteOpt o')\<lparr>ConnPool := Some (netpollmux_NewMuxConnPool connNum)\<rparr>\<rparr>
      in case WithTransHandlerFactory_F (Some netpollmux_NewCliTransHandlerFactory) o1 di1 of
           Inl x \<Rightarrow> Inl x
         | Inr (o2, di2) \<Rightarrow>
             Inr (o2\<lparr>Configs := SetTransportProtocol (TTHeader e) (Configs o2)\<rparr>, di2))"
| "F e (WithLogger logger) o' di =
     (let di1 = Push di (Leaf (Sprintf ''WithLogger(%T)'' [AIface logger]))
      in Inr (o'\<lparr>Logger := logger\<rparr>, di1))"
| "F e (WithLoadBalancer lb opts) o' di =
     (let di1 = Push di (Leaf (Sprintf ''WithLoadBalancer(%+v, %+v)'' [AIface lb, AIfaces opts]));
          o1 = o'\<lparr>Balancer := lb\<rparr>
      in if length opts > 0
         then Inr (o1\<lparr>BalancerCacheOpt := opts ! 0\<rparr>, di1)
         else Inr (o1, di1))"
| "F e (WithRPCTimeout d) o' di =
     (let di1 = Push di (Leaf (Sprintf ''WithRPCTimeout(%dms)'' [AInt (Milliseconds d)]));
          o1 = o'\<lparr>Configs := SetRPCTimeout d (Configs o')\<rparr>
      in Inr (o1\<lparr>Locks := (Locks o1)\<lparr>Bits := Bits (Locks o1) OR BitRPCTimeout e\<rparr>\<rparr>, di1))"
| "F e (WithConnectTimeout d) o' di =
     (let di1 = Push di (Leaf (Sprintf ''WithConnectTimeout(%dms)'' [AInt (Milliseconds d)]));
          o1 = o'\<lparr>Configs := SetConnectTimeout d (Configs o')\<rparr>
      in Inr (o1\<lparr>Locks := (Locks o1)\<lparr>Bits := Bits (Locks o1) OR BitConnectTimeout e\<rparr>\<rparr>, di1))"
| "F e (WithTag key val) o' di =
     (let di1 = Push di (Leaf (Sprintf ''WithTag(%s=%s)'' [AString key, AString val]));
          o1 = o'\<lparr>Svr := (Svr o')\<lparr>Tags := (Tags (Svr o'))(key \<mapsto> val)\<rparr>\<rparr>
      in Inr (o1\<lparr>Locks := (Locks o1)\<lparr>LockTags := insert key (LockTags (Locks o1))\<rparr>\<rparr>, di1))"
| "F e (WithTracer c) o' di =
     (let di1 = Push di (Leaf (Sprintf ''WithTracer(%T{%+v})'' [AIface c, AIface c]));
          ctl = (case TracerCtl o' of None \<Rightarrow> [] | Some ctl \<Rightarrow> ctl)
      in Inr (o'\<lparr>TracerCtl := Some (Append ctl c)\<rparr>, di1))"
| "F e (WithStatsLevel level) o' di =
     (let di1 = Push di (Leaf (Sprintf ''WithStatsLevel(%+v)'' [AValue level]))
      in Inr (o'\<lparr>StatsLevel := level\<rparr>, di1))"
| "F e (WithCodec c) o' di =
     (let di1 = Push di (Leaf (Sprintf ''WithCodec(%+v)'' [AIface c]))
      in Inr (o'\<lparr>RemoteOpt := (RemoteOpt o')\<lparr>Codec := c\<rparr>\<rparr>, di1))"
| "F e (WithPayloadCodec c) o' di =
     (let di1 = Push di (Leaf (Sprintf ''WithPayloadCodec(%+v)'' [AIface c]))
      in Inr (o'\<lparr>RemoteOpt := (RemoteOpt o')\<lparr>PayloadCodec := c\<rparr>\<rparr>, di1))"
| "F e WithConnReporterEnabled o' di =
     (let di1 = Push di (Leaf (Lit ''WithConnReporterEnabled()''))
      in Inr (o'\<lparr>RemoteOpt := (RemoteOpt o')\<lparr>EnableConnPoolReporter := True\<rparr>\<rparr>, di1))"
| "F e (WithFailureRetry None) o' di = Inr (o', di)"
| "F e (WithFailureRetry (Some p)) o' di =
     (let di1 = Push di (Leaf (Sprintf ''WithFailureRetry(%+v)'' [AValue p]));
          pol = (case RetryPolicy o' of None \<Rightarrow> Policy_zero | Some pol \<Rightarrow> pol);
          o1 = o'\<lparr>RetryPolicy := Some pol\<rparr>
      in if BackupPolicy pol \<noteq> None
         then Inl (Panic (Lit ''BackupPolicy has been setup, cannot support Failure Retry at same time''),
                   o1, di1)
         else Inr (o1\<lparr>RetryPolicy :=
                        Some (pol\<lparr>FailurePolicy := Some p, Enable := True, Type := FailureType\<rparr>)\<rparr>, di1))"
| "F e (WithBackupRequest None) o' di = Inr (o', di)"
| "F e (WithBackupRequest (Some p)) o' di =
     (let di1 = Push di (Leaf (Sprintf ''WithBackupRequest(%+v)'' [AValue p]));
          pol = (case RetryPolicy o' of None \<Rightarrow> Policy_zero | Some pol \<Rightarrow> pol);
          o1 = o'\<lparr>RetryPolicy := Some pol\<rparr>
      in if FailurePolicy pol \<noteq> None
         then Inl (Panic (Lit ''Failure Retry has been setup, cannot support Backup Request at same time''),
                   o1, di1)
         else Inr (o1\<lparr>RetryPolicy :=
                        Some (pol\<lparr>BackupPolicy := Some p, Enable := True, Type := BackupType\<rparr>)\<rparr>, di1))"
| "range_F e [] o' di = Inr (o', di)"
| "range_F e (op # ops) o' di =
     (case F e op o' di of
        Inl x \<Rightarrow> Inl x
      | Inr (o1, di1) \<Rightarrow> range_F e ops o1 di1)"

section \<open>What the trace is expected to hold\<close>

text \<open>
  The number of entries one application appends to the sink it was given. An option
  appends one entry, with two exceptions written in the source: a nil retry policy
  returns before its \<open>Push\<close>, and \<open>WithMuxConnection\<close> applies \<open>WithTransHandlerFactory\<close> to
  the same sink after its own \<open>Push\<close>.
\<close>

fun pushes :: "ClientOption \<Rightarrow> nat" where
  "pushes (WithFailureRetry None) = 0"
| "pushes (WithBackupRequest None) = 0"
| "pushes (WithMuxConnection connNum) = 2"
| "pushes _ = 1"

text \<open>
  The trace of the spec for a sequence of options: the descriptions in application
  order, a suite as one nested entry labelled with the suite and holding the trace of
  its own options.
\<close>

fun trace_of :: "deps \<Rightarrow> ClientOption \<Rightarrow> entry list"
and traces_of :: "deps \<Rightarrow> ClientOption list \<Rightarrow> entry list" where
  "trace_of e (WithSuite (Suite_of suite ops)) =
     [Nested (Sprintf ''%T(%+v)'' [AValue suite, AValue suite]) (traces_of e ops)]"
| "trace_of e (WithTransportProtocol tp) =
     [Leaf (Sprintf ''WithTransportProtocol(%s)'' [AString (Protocol_String e tp)])]"
| "trace_of e (WithMiddleware mw) =
     [Leaf (Sprintf ''WithMiddleware(%+v)'' [AString (GetFuncName e mw)])]"
| "trace_of e (WithMiddlewareBuilder mwb) =
     [Leaf (Sprintf ''WithMiddlewareBuilder(%+v)'' [AString (GetFuncName e mwb)])]"
| "trace_of e (WithInstanceMW mw) =
     [Leaf (Sprintf ''WithInstanceMW(%+v)'' [AString (GetFuncName e mw)])]"
| "trace_of e (WithDestService svr) = [Leaf (Sprintf ''WithDestService(%s)'' [AString svr])]"
| "trace_of e (WithHostPorts hostports) = [Leaf (Sprintf ''WithHostPorts(%v)'' [AStrings hostports])]"
| "trace_of e (WithResolver r) = [Leaf (Sprintf ''WithResolver(%T)'' [AResolver r])]"
| "trace_of e (WithHTTPResolver r) = [Leaf (Sprintf ''WithHTTPResolver(%T)'' [AIface r])]"
| "trace_of e (WithLongConnection cfg) = [Leaf (Sprintf ''WithLongConnection(%+v)'' [AValue cfg])]"
| "trace_of e (WithMuxConnection connNum) =
     [Leaf (Lit ''WithMuxConnection''),
      Leaf (Sprintf ''WithTransHandlerFactory(%T)''
        [AHandlerFactory (Some netpollmux_NewCliTransHandlerFactory)])]"
| "trace_of e (WithLogger logger) = [Leaf (Sprintf ''WithLogger(%T)'' [AIface logger])]"
| "trace_of e (WithLoadBalancer lb opts) =
     [Leaf (Sprintf ''WithLoadBalancer(%+v, %+v)'' [AIface lb, AIfaces opts])]"
| "trace_of e (WithRPCTimeout d) = [Leaf (Sprintf ''WithRPCTimeout(%dms)'' [AInt (Milliseconds d)])]"
| "trace_of e (WithConnectTimeout d) =
     [Leaf (Sprintf ''WithConnectTimeout(%dms)'' [AInt (Milliseconds d)])]"
| "trace_of e (WithTag key val) = [Leaf (Sprintf ''WithTag(%s=%s)'' [AString key, AString val])]"
| "trace_of e (WithTracer c) = [Leaf (Sprintf ''WithTracer(%T{%+v})'' [AIface c, AIface c])]"
| "trace_of e (WithStatsLevel level) = [Leaf (Sprintf ''WithStatsLevel(%+v)'' [AValue level])]"
| "trace_of e (WithCodec c) = [Leaf (Sprintf ''WithCodec(%+v)'' [AIface c])]"
| "trace_of e (WithPayloadCodec c) = [Leaf (Sprintf ''WithPayloadCodec(%+v)'' [AIface c])]"
| "trace_of e WithConnReporterEnabled = [Leaf (Lit ''WithConnReporterEnabled()'')]"
| "trace_of e (WithFailureRetry None) = []"
| "trace_of e (WithFailureRetry (Some p)) = [Leaf (Sprintf ''WithFailureRetry(%+v)'' [AValue p])]"
| "trace_of e (WithBackupRequest None) = []"
| "trace_of e (WithBackupRequest (Some p)) = [Leaf (Sprintf ''WithBackupRequest(%+v)'' [AValue p])]"
| "traces_of e [] = []"
| "traces_of e (op # ops) = trace_of e op @ traces_of e ops"

section \<open>Concrete inputs\<close>

text \<open>
  One instance of the parameters, for evaluating the options on concrete inputs: four
  protocols with their names, two TCP addresses that resolve, unix paths that start
  with a slash, and one bit per timeout.
\<close>

definition example_deps :: deps where
  "example_deps =
     \<lparr>Protocol_String = (\<lambda>tp. if tp = 1 then ''TTHeader'' else if tp = 2 then ''Framed''
                               else if tp = 4 then ''HTTP'' else if tp = 8 then ''GRPC''
                               else ''Unknown''),
      Unknown = ''Unknown'', GRPC = 8, TTHeader = 1,
      ResolveTCPAddr = (\<lambda>network address.
        address = ''127.0.0.1:9000'' \<or> address = ''127.0.0.1:9001''),
      ResolveUnixAddr = (\<lambda>network address. take 1 address = ''/''),
      DefaultWeight = 10, BitRPCTimeout = 1, BitConnectTimeout = 2,
      GetFuncName = (\<lambda>f. ''func'')\<rparr>"

text \<open>The options before any fragment is applied: every field at its zero value.\<close>

definition blank_Options :: Options where
  "blank_Options =
     \<lparr>RemoteOpt = \<lparr>ConnPool = None, CliHandlerFactory = None, Codec = None,
                    PayloadCodec = None, EnableConnPoolReporter = False\<rparr>,
      Configs = \<lparr>TransportProtocol = 0, RPCTimeout = 0, ConnectTimeout = 0\<rparr>,
      MWBs = [], IMWBs = [], Once = {},
      Svr = \<lparr>ServiceName = [], Tags = Map.empty\<rparr>,
      Targets = [], Resolver = None, HTTPResolver = None, PoolCfg = None, Logger = None,
      Balancer = None, BalancerCacheOpt = None,
      Locks = \<lparr>Bits = 0, LockTags = {}\<rparr>,
      TracerCtl = None, StatsLevel = 0, RetryPolicy = None\<rparr>"

section \<open>Predicates of the statements\<close>

text \<open>The retry policy holds a backup policy, or a failure policy.\<close>

definition backup_present :: "Options \<Rightarrow> bool" where
  "backup_present o' =
     (case RetryPolicy o' of None \<Rightarrow> False | Some pol \<Rightarrow> BackupPolicy pol \<noteq> None)"

definition failure_present :: "Options \<Rightarrow> bool" where
  "failure_present o' =
     (case RetryPolicy o' of None \<Rightarrow> False | Some pol \<Rightarrow> FailurePolicy pol \<noteq> None)"

text \<open>
  An address that resolves neither as a TCP address nor as a unix address, and the
  instance \<open>WithHostPorts\<close> builds for an address that resolves.
\<close>

definition unresolvable :: "deps \<Rightarrow> string \<Rightarrow> bool" where
  "unresolvable e hp = (\<not> ResolveTCPAddr e ''tcp'' hp \<and> \<not> ResolveUnixAddr e ''unix'' hp)"

definition instance_of :: "deps \<Rightarrow> string \<Rightarrow> Instance" where
  "instance_of e hp =
     NewInstance (if ResolveTCPAddr e ''tcp'' hp then ''tcp'' else ''unix'') hp (DefaultWeight e) None"


section \<open>Lemmas about the loops\<close>


lemma hostports_loop_valid:
  "\<not> list_ex (unresolvable e) hps \<Longrightarrow>
   hostports_loop e hps ins = Inr (ins @ map (instance_of e) hps)"
  by (induction hps arbitrary: ins) (auto simp: unresolvable_def instance_of_def)

lemma or_and_same: "(x OR b) AND b = (b::int)"
  by (rule bit_eqI) (auto simp: bit_and_iff bit_or_iff)

text \<open>Every successful application extends the sink by the expected trace.\<close>

lemma F_trace: "F e op o' di = Inr (o1, di1) \<Longrightarrow> di1 = di @ trace_of e op"
  and range_F_trace: "range_F e ops o' di = Inr (o1, di1) \<Longrightarrow> di1 = di @ traces_of e ops"
proof (induction e op o' di and e ops o' di arbitrary: o1 di1 and o1 di1 rule: F_range_F.induct)
  case (2 e suite ops o' di)
  then show ?case
    by (auto simp: Push_def Let_def split: sum.splits prod.splits)
next
  case (27 e op ops o' di)
  then show ?case
    by (auto split: sum.splits prod.splits)
qed (auto simp: Push_def Let_def WithTransHandlerFactory_F_def
           split: if_splits sum.splits option.splits prod.splits)


text \<open>Once the service name is set, no option that returns changes it or forgets it.\<close>

lemma F_keeps_service:
    "F e op o' di = Inr (o1, di1) \<Longrightarrow> ''WithDestService'' \<in> Once o' \<Longrightarrow>
     ''WithDestService'' \<in> Once o1 \<and> ServiceName (Svr o1) = ServiceName (Svr o')"
  and range_F_keeps_service:
    "range_F e ops o' di = Inr (o1, di1) \<Longrightarrow> ''WithDestService'' \<in> Once o' \<Longrightarrow>
     ''WithDestService'' \<in> Once o1 \<and> ServiceName (Svr o1) = ServiceName (Svr o')"
proof (induction e op o' di and e ops o' di arbitrary: o1 di1 and o1 di1 rule: F_range_F.induct)
  case (2 e suite ops o' di)
  then show ?case
    by (auto simp: Let_def split: sum.splits prod.splits)
next
  case (27 e op ops o' di)
  from "27.prems" obtain o2 di2 where
    step: "F e op o' di = Inr (o2, di2)" and rest: "range_F e ops o2 di2 = Inr (o1, di1)"
    by (auto split: sum.splits prod.splits)
  from "27.IH"(1) [OF step "27.prems"(2)]
  have mid: "''WithDestService'' \<in> Once o2 \<and> ServiceName (Svr o2) = ServiceName (Svr o')" .
  from "27.IH"(2) [OF step refl rest] mid show ?case by simp
qed (auto simp: Let_def WithTransHandlerFactory_F_def OnceOrPanic_def
           split: if_splits sum.splits option.splits prod.splits)

section \<open>One trace entry per application\<close>

text \<open>
  C1 (as amended). An application that returns without a panic appends to the sink it
  was given exactly one entry, except that \<open>WithFailureRetry\<close> and \<open>WithBackupRequest\<close>
  with a nil policy append none and \<open>WithMuxConnection\<close> appends two: its own and the one
  of the \<open>WithTransHandlerFactory\<close> it applies to the same sink. The entries already in
  the sink stay in front, unchanged.
\<close>

theorem entries_per_application:
  assumes "F e op o' di = Inr (o1, di1)"
  shows "\<exists>xs. di1 = di @ xs \<and> length xs = pushes op"
proof (cases op)
  case (WithSuite v)
  then show ?thesis using assms
    by (cases v) (auto simp: Push_def Let_def split: sum.splits prod.splits)
next
  case (WithFailureRetry p)
  then show ?thesis using assms
    by (cases p) (auto simp: Push_def Let_def split: if_splits)
next
  case (WithBackupRequest p)
  then show ?thesis using assms
    by (cases p) (auto simp: Push_def Let_def split: if_splits)
qed (use assms in \<open>auto simp: Push_def Let_def WithTransHandlerFactory_F_def
           split: if_splits sum.splits option.splits prod.splits\<close>)

theorem entries_per_application_witness:
  "\<exists>o1 x y. F example_deps (WithMuxConnection 2) blank_Options [Leaf (Lit ''before'')] =
     Inr (o1, [Leaf (Lit ''before''), x, y])"
proof -
  obtain o1 di1 where run:
    "F example_deps (WithMuxConnection 2) blank_Options [Leaf (Lit ''before'')] = Inr (o1, di1)"
    by (simp add: Let_def WithTransHandlerFactory_F_def)
  from entries_per_application [OF run] obtain xs where
    "di1 = [Leaf (Lit ''before'')] @ xs" and "length xs = 2"
    by auto
  then obtain x y where "di1 = [Leaf (Lit ''before''), x, y]"
    by (auto simp: length_Suc_conv numeral_2_eq_2)
  with run show ?thesis by blast
qed

text \<open>
  C1 as the spec states it fails: \<open>WithFailureRetry\<close> with a nil policy returns without a
  panic and leaves the sink empty.
\<close>

theorem nil_policy_appends_no_entry:
  "F example_deps (WithFailureRetry None) blank_Options [] = Inr (blank_Options, [])"
  by simp

section \<open>Failure retry and backup request exclude each other\<close>

text \<open>
  C2. In every state, \<open>WithFailureRetry\<close> with a policy panics when a backup policy is
  present, with the message that names the backup policy, and \<open>WithBackupRequest\<close> with
  a policy panics when a failure policy is present, with the message that names the
  failure retry; the state is the one the option was given. When the opposite policy
  is not present the option returns, the retry policy holds the given policy, its type
  is the one of the option and it is enabled (so the opposite option would then panic).
\<close>

theorem retry_policy_exclusive:
  "(backup_present o' \<longrightarrow>
      F e (WithFailureRetry (Some p)) o' di =
        Inl (Panic (Lit ''BackupPolicy has been setup, cannot support Failure Retry at same time''),
             o', Push di (Leaf (Sprintf ''WithFailureRetry(%+v)'' [AValue p])))) \<and>
   (failure_present o' \<longrightarrow>
      F e (WithBackupRequest (Some p)) o' di =
        Inl (Panic (Lit ''Failure Retry has been setup, cannot support Backup Request at same time''),
             o', Push di (Leaf (Sprintf ''WithBackupRequest(%+v)'' [AValue p])))) \<and>
   (\<not> backup_present o' \<longrightarrow>
      (\<exists>o1 di1 pol. F e (WithFailureRetry (Some p)) o' di = Inr (o1, di1) \<and>
         RetryPolicy o1 = Some pol \<and> Type pol = FailureType \<and> Enable pol \<and>
         FailurePolicy pol = Some p \<and> failure_present o1)) \<and>
   (\<not> failure_present o' \<longrightarrow>
      (\<exists>o1 di1 pol. F e (WithBackupRequest (Some p)) o' di = Inr (o1, di1) \<and>
         RetryPolicy o1 = Some pol \<and> Type pol = BackupType \<and> Enable pol \<and>
         BackupPolicy pol = Some p \<and> backup_present o1))"
  by (auto simp: Let_def backup_present_def failure_present_def Policy_zero_def
           split: option.splits)

theorem retry_policy_exclusive_witness:
  "F example_deps (WithFailureRetry (Some 7)) blank_Options [] =
     Inr (blank_Options\<lparr>RetryPolicy := Some \<lparr>Enable = True, Type = FailureType,
            FailurePolicy = Some 7, BackupPolicy = None\<rparr>\<rparr>,
          [Leaf (Sprintf ''WithFailureRetry(%+v)'' [AValue 7])]) \<and>
   F example_deps (WithBackupRequest (Some 9))
     (blank_Options\<lparr>RetryPolicy := Some \<lparr>Enable = True, Type = FailureType,
            FailurePolicy = Some 7, BackupPolicy = None\<rparr>\<rparr>)
     [Leaf (Sprintf ''WithFailureRetry(%+v)'' [AValue 7])] =
     Inl (Panic (Lit ''Failure Retry has been setup, cannot support Backup Request at same time''),
          blank_Options\<lparr>RetryPolicy := Some \<lparr>Enable = True, Type = FailureType,
            FailurePolicy = Some 7, BackupPolicy = None\<rparr>\<rparr>,
          [Leaf (Sprintf ''WithFailureRetry(%+v)'' [AValue 7]),
           Leaf (Sprintf ''WithBackupRequest(%+v)'' [AValue 9])]) \<and>
   F example_deps (WithFailureRetry (Some 7))
     (blank_Options\<lparr>RetryPolicy := Some \<lparr>Enable = True, Type = BackupType,
            FailurePolicy = None, BackupPolicy = Some 9\<rparr>\<rparr>) [] =
     Inl (Panic (Lit ''BackupPolicy has been setup, cannot support Failure Retry at same time''),
          blank_Options\<lparr>RetryPolicy := Some \<lparr>Enable = True, Type = BackupType,
            FailurePolicy = None, BackupPolicy = Some 9\<rparr>\<rparr>,
          [Leaf (Sprintf ''WithFailureRetry(%+v)'' [AValue 7])])"
  using retry_policy_exclusive [of blank_Options example_deps 7 "[]"]
    retry_policy_exclusive [of "blank_Options\<lparr>RetryPolicy := Some \<lparr>Enable = True,
            Type = FailureType, FailurePolicy = Some 7, BackupPolicy = None\<rparr>\<rparr>" example_deps 9
            "[Leaf (Sprintf ''WithFailureRetry(%+v)'' [AValue 7])]"]
    retry_policy_exclusive [of "blank_Options\<lparr>RetryPolicy := Some \<lparr>Enable = True,
            Type = BackupType, FailurePolicy = None, BackupPolicy = Some 9\<rparr>\<rparr>" example_deps 7 "[]"]
  by (simp add: failure_present_def backup_present_def blank_Options_def Push_def
        Policy_zero_def Let_def)

section \<open>The trace follows the order of application\<close>



section \<open>WithHostPorts\<close>



text \<open>
  C5. \<open>WithHostPorts\<close> with at least one address, all of which resolve, returns with a
  synthesized resolver installed whose \<open>ResolveFunc\<close> gives, for every context and key,
  the same result: cacheable, with the cache key "fixed", and with one instance per
  address, in the order of the addresses.
\<close>

theorem WithHostPorts_fixed_resolver:
  assumes "hostports \<noteq> []" and "\<not> list_ex (unresolvable e) hostports"
  shows "\<exists>o1 rf. F e (WithHostPorts hostports) o' di =
           Inr (o1, Push di (Leaf (Sprintf ''WithHostPorts(%v)'' [AStrings hostports]))) \<and>
         Resolver o1 = Some (SynthesizedResolver rf Return_o_Targets) \<and>
         (\<forall>ctx key. rf ctx key =
            (\<lparr>Cacheable = True, CacheKey = ''fixed'', Instances = map (instance_of e) hostports\<rparr>, None)) \<and>
         length (map (instance_of e) hostports) = length hostports \<and>
         Targets o1 = Join hostports '',''"
  using assms hostports_loop_valid [OF assms(2), of "[]"]
  by (auto simp: Let_def)

theorem WithHostPorts_fixed_resolver_witness:
  "\<exists>o1 rf. F example_deps (WithHostPorts [''127.0.0.1:9000'', ''127.0.0.1:9001'']) blank_Options [] =
      Inr (o1, [Leaf (Sprintf ''WithHostPorts(%v)'' [AStrings [''127.0.0.1:9000'', ''127.0.0.1:9001'']])]) \<and>
    Resolver o1 = Some (SynthesizedResolver rf Return_o_Targets) \<and>
    (\<forall>ctx key. rf ctx key =
       (\<lparr>Cacheable = True, CacheKey = ''fixed'',
         Instances = [NewInstance ''tcp'' ''127.0.0.1:9000'' 10 None,
                      NewInstance ''tcp'' ''127.0.0.1:9001'' 10 None]\<rparr>, None)) \<and>
    Targets o1 = ''127.0.0.1:9000,127.0.0.1:9001''"
  using WithHostPorts_fixed_resolver [of "[''127.0.0.1:9000'', ''127.0.0.1:9001'']" example_deps blank_Options "[]"]
  by (simp add: unresolvable_def instance_of_def example_deps_def Push_def)

section \<open>WithTransportProtocol\<close>

text \<open>
  C6. In every state, \<open>WithTransportProtocol\<close> with a protocol whose name is the unknown
  one panics with the options and the sink as they were given; with the GRPC protocol
  (when it has a name) it installs the nphttp2 connection pool and handler factory,
  both non-nil, and sets the transport protocol through the setter of the rpc config;
  with any other named protocol that setter's write is the only change to the options.
\<close>

theorem WithTransportProtocol_cases:
  "(Protocol_String e tp = Unknown e \<longrightarrow>
      F e (WithTransportProtocol tp) o' di =
        Inl (Panic (Errorf (''WithTransportProtocol: invalid '' @ [CHR 0x27] @ ''%v'' @ [CHR 0x27])
                      [AProtocol tp]), o', di)) \<and>
   (Protocol_String e tp \<noteq> Unknown e \<and> tp = GRPC e \<longrightarrow>
      F e (WithTransportProtocol tp) o' di =
        Inr (o'\<lparr>RemoteOpt := (RemoteOpt o')\<lparr>ConnPool := Some nphttp2_NewConnPool,
                   CliHandlerFactory := Some nphttp2_NewCliTransHandlerFactory\<rparr>,
                 Configs := SetTransportProtocol tp (Configs o')\<rparr>,
             Push di (Leaf (Sprintf ''WithTransportProtocol(%s)'' [AString (Protocol_String e tp)])))) \<and>
   (Protocol_String e tp \<noteq> Unknown e \<and> tp \<noteq> GRPC e \<longrightarrow>
      F e (WithTransportProtocol tp) o' di =
        Inr (o'\<lparr>Configs := SetTransportProtocol tp (Configs o')\<rparr>,
             Push di (Leaf (Sprintf ''WithTransportProtocol(%s)'' [AString (Protocol_String e tp)])))) \<and>
   SetTransportProtocol tp (Configs o') = (Configs o')\<lparr>TransportProtocol := tp\<rparr>"
  by (auto simp: Let_def SetTransportProtocol_def)

theorem WithTransportProtocol_cases_witness:
  "F example_deps (WithTransportProtocol 3) blank_Options [] =
     Inl (Panic (Errorf (''WithTransportProtocol: invalid '' @ [CHR 0x27] @ ''%v'' @ [CHR 0x27])
                   [AProtocol 3]), blank_Options, []) \<and>
   F example_deps (WithTransportProtocol 8) blank_Options [] =
     Inr (blank_Options\<lparr>RemoteOpt := (RemoteOpt blank_Options)\<lparr>ConnPool := Some nphttp2_NewConnPool,
                   CliHandlerFactory := Some nphttp2_NewCliTransHandlerFactory\<rparr>,
                 Configs := (Configs blank_Options)\<lparr>TransportProtocol := 8\<rparr>\<rparr>,
          [Leaf (Sprintf ''WithTransportProtocol(%s)'' [AString ''GRPC''])]) \<and>
   F example_deps (WithTransportProtocol 2) blank_Options [] =
     Inr (blank_Options\<lparr>Configs := (Configs blank_Options)\<lparr>TransportProtocol := 2\<rparr>\<rparr>,
          [Leaf (Sprintf ''WithTransportProtocol(%s)'' [AString ''Framed''])])"
  using WithTransportProtocol_cases [of example_deps 3 blank_Options "[]"]
    WithTransportProtocol_cases [of example_deps 8 blank_Options "[]"]
    WithTransportProtocol_cases [of example_deps 2 blank_Options "[]"]
  by (simp add: example_deps_def Push_def SetTransportProtocol_def)

section \<open>WithDestService\<close>

text \<open>
  C7. After \<open>WithDestService\<close> has returned once, and after any options applied without a
  panic since then, a second \<open>WithDestService\<close> panics; the options at the panic are the
  ones it was given, and their service name is the one the first application set.
\<close>

theorem WithDestService_twice:
  assumes "F e (WithDestService svr1) o' di = Inr (o1, di1)"
    and "range_F e ops o1 di1 = Inr (o2, di2)"
  shows "F e (WithDestService svr2) o2 di3 = Inl (OncePanic ''WithDestService'', o2, di3) \<and>
         ServiceName (Svr o2) = svr1"
proof -
  from assms(1) have first: "''WithDestService'' \<in> Once o1 \<and> ServiceName (Svr o1) = svr1"
    by (auto simp: OnceOrPanic_def Let_def split: if_splits)
  with range_F_keeps_service [OF assms(2)]
  have "''WithDestService'' \<in> Once o2 \<and> ServiceName (Svr o2) = svr1" by simp
  then show ?thesis by (simp add: OnceOrPanic_def)
qed

theorem WithDestService_twice_witness:
  "\<exists>o1 o2 di2.
     F example_deps (WithDestService ''echo'') blank_Options [] =
       Inr (o1, [Leaf (Sprintf ''WithDestService(%s)'' [AString ''echo''])]) \<and>
     range_F example_deps [WithTag ''idc'' ''lf'']
         o1 [Leaf (Sprintf ''WithDestService(%s)'' [AString ''echo''])] = Inr (o2, di2) \<and>
     F example_deps (WithDestService ''other'') o2 di2 =
       Inl (OncePanic ''WithDestService'', o2, di2) \<and>
     ServiceName (Svr o2) = ''echo''"
proof -
  obtain o1 where first: "F example_deps (WithDestService ''echo'') blank_Options [] =
       Inr (o1, [Leaf (Sprintf ''WithDestService(%s)'' [AString ''echo''])])"
    by (simp add: OnceOrPanic_def blank_Options_def Push_def)
  obtain o2 di2 where rest: "range_F example_deps [WithTag ''idc'' ''lf'']
         o1 [Leaf (Sprintf ''WithDestService(%s)'' [AString ''echo''])] = Inr (o2, di2)"
    by (simp add: Let_def)
  from WithDestService_twice [OF first rest, of "''other''" di2] first rest
  show ?thesis by blast
qed

section \<open>WithRPCTimeout\<close>

text \<open>
  C8. \<open>WithRPCTimeout\<close> returns with the rpc timeout set to its argument, through the
  setter of the rpc config, and with the rpc-timeout bit set in the lock bits; applied
  again with another value it sets the timeout to that value and leaves the lock bits
  as they were, the bit still set.
\<close>

theorem WithRPCTimeout_twice:
  "\<exists>o1 di1 o2 di2.
     F e (WithRPCTimeout d1) o' di = Inr (o1, di1) \<and>
     Configs o1 = SetRPCTimeout d1 (Configs o') \<and>
     RPCTimeout (Configs o1) = d1 \<and>
     Bits (Locks o1) = Bits (Locks o') OR BitRPCTimeout e \<and>
     Bits (Locks o1) AND BitRPCTimeout e = BitRPCTimeout e \<and>
     F e (WithRPCTimeout d2) o1 di1 = Inr (o2, di2) \<and>
     Configs o2 = SetRPCTimeout d2 (Configs o1) \<and>
     RPCTimeout (Configs o2) = d2 \<and>
     Bits (Locks o2) = Bits (Locks o1) \<and>
     Bits (Locks o2) AND BitRPCTimeout e = BitRPCTimeout e"
  by (simp add: Let_def SetRPCTimeout_def or_and_same)

theorem WithRPCTimeout_twice_witness:
  "\<exists>o1 o2.
     F example_deps (WithRPCTimeout 1000000000) blank_Options [] =
       Inr (o1, [Leaf (Sprintf ''WithRPCTimeout(%dms)'' [AInt 1000])]) \<and>
     RPCTimeout (Configs o1) = 1000000000 \<and> Bits (Locks o1) = 1 \<and>
     F example_deps (WithRPCTimeout 2000000000) o1
         [Leaf (Sprintf ''WithRPCTimeout(%dms)'' [AInt 1000])] =
       Inr (o2, [Leaf (Sprintf ''WithRPCTimeout(%dms)'' [AInt 1000]),
                 Leaf (Sprintf ''WithRPCTimeout(%dms)'' [AInt 2000])]) \<and>
     RPCTimeout (Configs o2) = 2000000000 \<and> Bits (Locks o2) = 1"
  using WithRPCTimeout_twice [of example_deps 1000000000 blank_Options "[]" 2000000000]
  by (simp add: Let_def SetRPCTimeout_def example_deps_def blank_Options_def Push_def
        Milliseconds_def signed_divide_int_def)

section \<open>WithLongConnection\<close>

text \<open>
  C9. In every state \<open>WithLongConnection\<close> returns. When no pool configuration is set it
  sets the checked configuration; when one is set it leaves the options as they are.
\<close>

theorem WithLongConnection_first_wins:
  "(PoolCfg o' = None \<longrightarrow>
      F e (WithLongConnection cfg) o' di =
        Inr (o'\<lparr>PoolCfg := Some (CheckPoolConfig cfg)\<rparr>,
             Push di (Leaf (Sprintf ''WithLongConnection(%+v)'' [AValue cfg])))) \<and>
   (PoolCfg o' \<noteq> None \<longrightarrow>
      F e (WithLongConnection cfg) o' di =
        Inr (o', Push di (Leaf (Sprintf ''WithLongConnection(%+v)'' [AValue cfg]))))"
  by (simp add: Let_def)

theorem WithLongConnection_first_wins_witness:
  "F example_deps (WithLongConnection 1) blank_Options [] =
     Inr (blank_Options\<lparr>PoolCfg := Some (CheckPoolConfig 1)\<rparr>,
          [Leaf (Sprintf ''WithLongConnection(%+v)'' [AValue 1])]) \<and>
   F example_deps (WithLongConnection 2) (blank_Options\<lparr>PoolCfg := Some (CheckPoolConfig 1)\<rparr>)
       [Leaf (Sprintf ''WithLongConnection(%+v)'' [AValue 1])] =
     Inr (blank_Options\<lparr>PoolCfg := Some (CheckPoolConfig 1)\<rparr>,
          [Leaf (Sprintf ''WithLongConnection(%+v)'' [AValue 1]),
           Leaf (Sprintf ''WithLongConnection(%+v)'' [AValue 2])])"
  using WithLongConnection_first_wins [of blank_Options example_deps 1 "[]"]
    WithLongConnection_first_wins [of "blank_Options\<lparr>PoolCfg := Some (CheckPoolConfig 1)\<rparr>"
      example_deps 2 "[Leaf (Sprintf ''WithLongConnection(%+v)'' [AValue 1])]"]
  by (simp add: blank_Options_def Push_def)

section \<open>Nil retry policies\<close>

text \<open>
  C10. For every configuration state and trace log, \<open>WithFailureRetry\<close> with a nil
  failure policy and \<open>WithBackupRequest\<close> with a nil backup policy return with the state
  and the trace log unchanged, whatever the retry-policy field holds.
\<close>

theorem nil_policy_noop:
  "F e (WithFailureRetry None) o' di = Inr (o', di) \<and>
   F e (WithBackupRequest None) o' di = Inr (o', di)"
  by simp

theorem nil_policy_noop_witness:
  "F example_deps (WithFailureRetry None)
     (blank_Options\<lparr>RetryPolicy := Some \<lparr>Enable = True, Type = BackupType,
        FailurePolicy = None, BackupPolicy = Some 9\<rparr>\<rparr>)
     [Leaf (Sprintf ''WithBackupRequest(%+v)'' [AValue 9])] =
     Inr (blank_Options\<lparr>RetryPolicy := Some \<lparr>Enable = True, Type = BackupType,
            FailurePolicy = None, BackupPolicy = Some 9\<rparr>\<rparr>,
          [Leaf (Sprintf ''WithBackupRequest(%+v)'' [AValue 9])]) \<and>
   F example_deps (WithBackupRequest None) blank_Options [] = Inr (blank_Options, [])"
  using nil_policy_noop [of example_deps "blank_Options\<lparr>RetryPolicy := Some \<lparr>Enable = True,
        Type = BackupType, FailurePolicy = None, BackupPolicy = Some 9\<rparr>\<rparr>"
        "[Leaf (Sprintf ''WithBackupRequest(%+v)'' [AValue 9])]"]
    nil_policy_noop [of example_deps blank_Options "[]"]
  by simp

end
